theory Spec2Isabelle
  imports
    Main
    "HOL-Library.Sublist"
    "HOL-Library.Multiset"
    "HOL-Library.Char_ord"
    "HOL-Library.List_Lexorder"
begin

section \<open>The sample downloader \<^verbatim>\<open>Samples/download_testset.py\<close>\<close>

text \<open>
  The script lists the \<^verbatim>\<open>.ply\<close> files of a dataset repository, downloads the first
  \<^verbatim>\<open>count\<close> of them into a directory, moves each one to the root of that directory and
  writes a \<^verbatim>\<open>README.md\<close>. Everything it does is an effect, so the model threads a
  world through every function: the local file system, the state of the remote service,
  the lines printed so far, and a log of the calls made to the outside.

  Strings are \<^typ>\<open>string\<close>, compared as Python compares \<^verbatim>\<open>str\<close>: character by
  character by code, a proper prefix first. Python's \<^verbatim>\<open>int\<close> is \<^typ>\<open>int\<close>.

  What is left out: how \<^verbatim>\<open>argparse\<close> reads the command line (what it does with it is
  given to the model, as the answers of the remote are), symbolic links, permissions and
  the other ways a file system can refuse a call, and interrupts from outside such as
  \<^verbatim>\<open>KeyboardInterrupt\<close>, which is no \<^verbatim>\<open>Exception\<close> and would pass every handler of the
  script but the bare one.
\<close>

subsection \<open>Text\<close>

definition nl :: char where
  "nl = CHR 0x0A"

definition dquote :: char where
  "dquote = CHR 0x22"

text \<open>\<^verbatim>\<open>s.endswith(suf)\<close>\<close>

definition endswith :: "string \<Rightarrow> string \<Rightarrow> bool" where
  "endswith s suf \<longleftrightarrow> length suf \<le> length s \<and> drop (length s - length suf) s = suf"

text \<open>\<^verbatim>\<open>str(n)\<close> of a natural number and of an integer, in decimal.\<close>

definition digit :: "nat \<Rightarrow> char" where
  "digit d = char_of (48 + d)"

function str_nat :: "nat \<Rightarrow> string" where
  "str_nat n = (if n < 10 then [digit n] else str_nat (n div 10) @ [digit (n mod 10)])"
  by pat_completeness auto
termination
  by (relation "measure (\<lambda>n. n)") auto

declare str_nat.simps [simp del]

definition str_int :: "int \<Rightarrow> string" where
  "str_int i = (if i < 0 then CHR ''-'' # str_nat (nat (- i)) else str_nat (nat i))"

text \<open>The number a string of decimal digits stands for, to read a printed number back.\<close>

definition decimal_value :: "string \<Rightarrow> nat" where
  "decimal_value s = foldl (\<lambda>a c. 10 * a + (of_char c - 48)) 0 s"

text \<open>
  \<^verbatim>\<open>f"{size / (1024 * 1024):.2f}"\<close> for a size in bytes. The division by \<open>2\<^sup>2\<^sup>0\<close> is exact
  in binary floating point for every size below \<open>2\<^sup>5\<^sup>3\<close>, and the format rounds the exact
  value to two decimals, a tie to the even digit; so the text is computed on integers.
\<close>

definition fmt_mb :: "nat \<Rightarrow> string" where
  "fmt_mb size_bytes =
     (let q = (size_bytes * 100) div 1048576;
          r = (size_bytes * 100) mod 1048576;
          cents = (if r > 524288 \<or> (r = 524288 \<and> odd q) then q + 1 else q)
      in str_nat (cents div 100) @ ''.'' @ [digit (cents mod 100 div 10), digit (cents mod 10)])"

subsection \<open>Paths and the file system\<close>

text \<open>
  A \<^verbatim>\<open>Path\<close> is the list of its components below the root; every path of the model is
  absolute and resolved, so \<^verbatim>\<open>resolve()\<close> is the identity on it. The file system is an
  association list from paths to nodes, the first binding of a path being the one in force;
  the root is a directory that needs no binding. A file carries its bytes, and its
  \<^verbatim>\<open>st_size\<close> is their number.
\<close>

type_synonym path = "string list"

datatype node = Dir | File string

type_synonym filesystem = "(path \<times> node) list"

text \<open>All the errors of the model are instances of Python's \<^verbatim>\<open>Exception\<close>.\<close>

datatype exn =
    FileNotFoundError
  | FileExistsError
  | NotADirectoryError
  | IsADirectoryError
  | OSError string
  | Exception string

text \<open>
  \<^verbatim>\<open>str(e)\<close>. The text of an operating-system error depends on the platform; the model
  prints the name of its class.
\<close>

fun str_exn :: "exn \<Rightarrow> string" where
  "str_exn FileNotFoundError = ''FileNotFoundError''"
| "str_exn FileExistsError = ''FileExistsError''"
| "str_exn NotADirectoryError = ''NotADirectoryError''"
| "str_exn IsADirectoryError = ''IsADirectoryError''"
| "str_exn (OSError m) = m"
| "str_exn (Exception m) = m"

text \<open>\<^verbatim>\<open>str(p)\<close>, \<^verbatim>\<open>p.name\<close>, \<^verbatim>\<open>p.parent\<close> and \<^verbatim>\<open>p / name\<close> of a path.\<close>

definition str_path :: "path \<Rightarrow> string" where
  "str_path p = (if p = [] then ''/'' else concat (map (\<lambda>c. CHR ''/'' # c) p))"

definition name :: "path \<Rightarrow> string" where
  "name p = (if p = [] then [] else last p)"

definition parent :: "path \<Rightarrow> path" where
  "parent p = butlast p"

definition joinpath :: "path \<Rightarrow> string \<Rightarrow> path" where
  "joinpath d n = (if n = [] then d else d @ [n])"

text \<open>
  \<^verbatim>\<open>Path(s).name\<close> of a string: the last component of \<open>s\<close>, split at \<^verbatim>\<open>/\<close>, empty
  components and \<^verbatim>\<open>.\<close> dropped; empty when nothing is left.
\<close>

fun split_slash :: "string \<Rightarrow> string \<Rightarrow> string list" where
  "split_slash acc [] = [rev acc]"
| "split_slash acc (c # cs) =
     (if c = CHR ''/'' then rev acc # split_slash [] cs else split_slash (c # acc) cs)"

definition components :: "string \<Rightarrow> string list" where
  "components s = filter (\<lambda>c. c \<noteq> [] \<and> c \<noteq> ''.'') (split_slash [] s)"

definition Path_name :: "string \<Rightarrow> string" where
  "Path_name s = (if components s = [] then [] else last (components s))"

text \<open>\<^verbatim>\<open>os.stat\<close>, \<^verbatim>\<open>Path.exists\<close>, \<^verbatim>\<open>Path.is_dir\<close> and \<^verbatim>\<open>st_size\<close>.\<close>

definition stat :: "filesystem \<Rightarrow> path \<Rightarrow> node option" where
  "stat d p = (if p = [] then Some Dir else map_of d p)"

definition exists :: "filesystem \<Rightarrow> path \<Rightarrow> bool" where
  "exists d p \<longleftrightarrow> stat d p \<noteq> None"

definition is_dir :: "filesystem \<Rightarrow> path \<Rightarrow> bool" where
  "is_dir d p \<longleftrightarrow> stat d p = Some Dir"

text \<open>The size a directory reports is the platform's; 4096 is the usual block.\<close>

fun st_size :: "node \<Rightarrow> nat" where
  "st_size Dir = 4096"
| "st_size (File bytes) = length bytes"

definition children :: "filesystem \<Rightarrow> path \<Rightarrow> path list" where
  "children d p = [q. (q, n) \<leftarrow> d, q \<noteq> [] \<and> parent q = p]"

text \<open>\<^verbatim>\<open>os.mkdir\<close>: the parent must be a directory and the path free.\<close>

definition os_mkdir :: "filesystem \<Rightarrow> path \<Rightarrow> exn + filesystem" where
  "os_mkdir d p =
     (if exists d p then Inl FileExistsError
      else if \<not> exists d (parent p) then Inl FileNotFoundError
      else if \<not> is_dir d (parent p) then Inl NotADirectoryError
      else Inr (d @ [(p, Dir)]))"

text \<open>
  \<^verbatim>\<open>Path.mkdir(parents=True, exist_ok=True)\<close>, as pathlib writes it: try
  \<^verbatim>\<open>os.mkdir\<close>; on \<^verbatim>\<open>FileNotFoundError\<close> make the parent first and try again; any
  other error is dropped when the path is a directory already.
\<close>

function mkdir_parents :: "filesystem \<Rightarrow> path \<Rightarrow> exn + filesystem" where
  "mkdir_parents d p =
     (case os_mkdir d p of
        Inr d' \<Rightarrow> Inr d'
      | Inl FileNotFoundError \<Rightarrow>
          (if parent p = p then Inl FileNotFoundError
           else (case mkdir_parents d (parent p) of
                   Inl e \<Rightarrow> Inl e
                 | Inr d1 \<Rightarrow>
                     (case os_mkdir d1 p of
                        Inr d2 \<Rightarrow> Inr d2
                      | Inl e \<Rightarrow> if is_dir d1 p then Inr d1 else Inl e)))
      | Inl e \<Rightarrow> if is_dir d p then Inr d else Inl e)"
  by pat_completeness auto
termination
proof (relation "measure (\<lambda>(d, p). length p)")
  show "wf (measure (\<lambda>(d, p). length p))" by simp
next
  fix d :: filesystem and p :: path and x
  assume "parent p \<noteq> p"
  then have "p \<noteq> []" by (auto simp: parent_def)
  then show "((d, parent p), (d, p)) \<in> measure (\<lambda>(d, p). length p)"
    by (simp add: parent_def)
qed

declare mkdir_parents.simps [simp del]

text \<open>
  \<^verbatim>\<open>os.rename\<close> with the POSIX rules: the source must exist and the parent of the
  destination be a directory; a file does not replace a directory, a directory replaces only
  an empty directory and is not moved below itself. The whole subtree moves.
\<close>

definition move :: "filesystem \<Rightarrow> path \<Rightarrow> path \<Rightarrow> filesystem" where
  "move d src dst =
     filter (\<lambda>(q, n). \<not> prefix src q \<and> \<not> prefix dst q) d
     @ [(dst @ drop (length src) q, n). (q, n) \<leftarrow> d, prefix src q]"

definition os_rename :: "filesystem \<Rightarrow> path \<Rightarrow> path \<Rightarrow> exn + filesystem" where
  "os_rename d src dst =
     (case stat d src of
        None \<Rightarrow> Inl FileNotFoundError
      | Some n \<Rightarrow>
          if src = dst then Inr d
          else if \<not> exists d (parent dst) then Inl FileNotFoundError
          else if \<not> is_dir d (parent dst) then Inl NotADirectoryError
          else (case n of
                  File bytes \<Rightarrow>
                    if is_dir d dst then Inl IsADirectoryError else Inr (move d src dst)
                | Dir \<Rightarrow>
                    if prefix src dst then Inl (OSError ''EINVAL'')
                    else (case stat d dst of
                            None \<Rightarrow> Inr (move d src dst)
                          | Some (File bytes) \<Rightarrow> Inl NotADirectoryError
                          | Some Dir \<Rightarrow>
                              if children d dst \<noteq> [] then Inl (OSError ''ENOTEMPTY'')
                              else Inr (move d src dst))))"

text \<open>\<^verbatim>\<open>os.rmdir\<close>: only an empty directory other than the root goes.\<close>

definition os_rmdir :: "filesystem \<Rightarrow> path \<Rightarrow> exn + filesystem" where
  "os_rmdir d p =
     (case stat d p of
        None \<Rightarrow> Inl FileNotFoundError
      | Some (File bytes) \<Rightarrow> Inl NotADirectoryError
      | Some Dir \<Rightarrow>
          if p = [] then Inl (OSError ''EBUSY'')
          else if children d p \<noteq> [] then Inl (OSError ''ENOTEMPTY'')
          else Inr (filter (\<lambda>(q, n). q \<noteq> p) d))"

text \<open>\<^verbatim>\<open>Path.write_text\<close>: opens the path for writing, which truncates a file there.\<close>

definition write_text :: "filesystem \<Rightarrow> path \<Rightarrow> string \<Rightarrow> exn + filesystem" where
  "write_text d p content =
     (if is_dir d p then Inl IsADirectoryError
      else if \<not> exists d (parent p) then Inl FileNotFoundError
      else if \<not> is_dir d (parent p) then Inl NotADirectoryError
      else Inr ((p, File content) # filter (\<lambda>(q, n). q \<noteq> p) d))"

subsection \<open>The world\<close>

text \<open>
  The calls the script makes to the outside, logged in the order they are made (a ghost
  field: the script keeps no such log). Reading the file system is not logged.
\<close>

datatype call =
    ListRepoFiles string
  | HfHubDownload string string path
  | Mkdir path
  | Rename path path
  | Rmdir path
  | WriteText path string

record 'n world =
  disk :: filesystem
  net :: 'n
  stdout :: "string list"
  calls :: "call list"

text \<open>
  The two functions of \<^verbatim>\<open>huggingface_hub\<close> the script imports. They are not part of
  the repository, so they are parameters: each one reads and changes the state \<open>'n\<close> of the
  remote side; the download also changes the disk, and returns the local path of the file
  (the string it returns, read as a \<^verbatim>\<open>Path\<close>) or raises.
\<close>

record 'n hub =
  list_repo_files :: "string \<Rightarrow> 'n \<Rightarrow> (exn + string list) \<times> 'n"
  hf_hub_download ::
    "string \<Rightarrow> string \<Rightarrow> path \<Rightarrow> filesystem \<Rightarrow> 'n \<Rightarrow> (exn + path) \<times> filesystem \<times> 'n"

text \<open>\<^verbatim>\<open>print(s)\<close> adds one entry to the output; \<open>called\<close> adds one to the log.\<close>

definition print :: "string \<Rightarrow> 'n world \<Rightarrow> 'n world" where
  "print s w = w\<lparr>stdout := stdout w @ [s]\<rparr>"

definition called :: "call \<Rightarrow> 'n world \<Rightarrow> 'n world" where
  "called c w = w\<lparr>calls := calls w @ [c]\<rparr>"

definition REPO_ID :: string where
  "REPO_ID = ''manycore-research/SpatialLM-Testset''"

definition DEFAULT_COUNT :: int where
  "DEFAULT_COUNT = 5"

subsection \<open>\<^verbatim>\<open>list_available_scenes\<close>\<close>

definition list_available_scenes :: "'n hub \<Rightarrow> string \<Rightarrow> 'n world \<Rightarrow> string list \<times> 'n world" where
  "list_available_scenes h repo_id w =
     (let (r, n') = list_repo_files h repo_id (net w);
          w1 = called (ListRepoFiles repo_id) (w\<lparr>net := n'\<rparr>)
      in case r of
           Inr all_files \<Rightarrow>
             (let ply_files = filter (\<lambda>f. endswith f ''.ply'') all_files
              in (sort ply_files, w1))
         | Inl e \<Rightarrow>
             ([], print (''ERROR: Failed to list repository files: '' @ str_exn e) w1))"

subsection \<open>\<^verbatim>\<open>download_ply_file\<close>\<close>

text \<open>
  Lines 59 to 65: the rename, then the removal of the directory the file was in, whose
  failure the bare \<^verbatim>\<open>except\<close> drops.
\<close>

definition relocate :: "path \<Rightarrow> path \<Rightarrow> 'n world \<Rightarrow> (exn + unit) \<times> 'n world" where
  "relocate downloaded_file target_file w =
     (let w1 = called (Rename downloaded_file target_file) w
      in case os_rename (disk w1) downloaded_file target_file of
           Inl e \<Rightarrow> (Inl e, w1)
         | Inr d1 \<Rightarrow>
             (let w2 = called (Rmdir (parent downloaded_file)) (w1\<lparr>disk := d1\<rparr>)
              in case os_rmdir d1 (parent downloaded_file) of
                   Inl e \<Rightarrow> (Inr (), w2)
                 | Inr d2 \<Rightarrow> (Inr (), w2\<lparr>disk := d2\<rparr>)))"

text \<open>The body of the \<^verbatim>\<open>try\<close>, lines 46 to 69: \<open>Inl\<close> is an exception raised in it.\<close>

definition download_body ::
  "'n hub \<Rightarrow> string \<Rightarrow> string \<Rightarrow> path \<Rightarrow> 'n world \<Rightarrow> (exn + bool) \<times> 'n world" where
  "download_body h repo_id filename output_dir w =
     (let w1 = print (''Downloading: '' @ filename @ ''...'') w;
          (r, d', n') = hf_hub_download h repo_id filename output_dir (disk w1) (net w1);
          w2 = called (HfHubDownload repo_id filename output_dir) (w1\<lparr>disk := d', net := n'\<rparr>)
      in case r of
           Inl e \<Rightarrow> (Inl e, w2)
         | Inr local_path \<Rightarrow>
             (let downloaded_file = local_path;
                  target_file = joinpath output_dir (name downloaded_file);
                  (moved, w3) =
                    (if downloaded_file \<noteq> target_file
                     then relocate downloaded_file target_file w2
                     else (Inr (), w2))
              in case moved of
                   Inl e \<Rightarrow> (Inl e, w3)
                 | Inr u \<Rightarrow>
                     (case stat (disk w3) target_file of
                        None \<Rightarrow> (Inl FileNotFoundError, w3)
                      | Some nd \<Rightarrow>
                          (Inr True,
                           print (''  SUCCESS: '' @ name target_file @ '' (''
                                    @ fmt_mb (st_size nd) @ '' MB)'') w3))))"

definition download_ply_file ::
  "'n hub \<Rightarrow> string \<Rightarrow> string \<Rightarrow> path \<Rightarrow> 'n world \<Rightarrow> bool \<times> 'n world" where
  "download_ply_file h repo_id filename output_dir w =
     (case download_body h repo_id filename output_dir w of
        (Inr b, w') \<Rightarrow> (b, w')
      | (Inl e, w') \<Rightarrow>
          (False, print (''  ERROR: Failed to download '' @ filename @ '': '' @ str_exn e) w'))"

subsection \<open>\<^verbatim>\<open>create_readme\<close>\<close>

definition unlines :: "string list \<Rightarrow> string" where
  "unlines ls = concat (map (\<lambda>l. l @ [nl]) ls)"

definition readme_head :: "nat \<Rightarrow> string" where
  "readme_head n = unlines
     [''# SpatialLM3D Sample Scenes'',
      [],
      ''This directory contains '' @ str_nat n
        @ '' sample PLY files from the SpatialLM-Testset dataset.'',
      [],
      ''## Dataset Source'',
      [],
      ''- Repository: HuggingFace `manycore-research/SpatialLM-Testset`'',
      ''- License: CC-BY-NC-4.0 (Non-commercial use, academic/educational projects allowed)'',
      ''- URL: https://huggingface.co/datasets/manycore-research/SpatialLM-Testset'',
      [],
      ''## Files'',
      []]"

definition readme_tail :: string where
  "readme_tail = unlines
     [[],
      ''## Usage'',
      [],
      ''1. Launch SpatialLM3D Desktop application'',
      ''2. Click '' @ [dquote] @ ''Select PLY File'' @ [dquote] @ '' button'',
      ''3. Navigate to this `Samples/` directory'',
      ''4. Select any `.ply` file to analyze'',
      [],
      ''## Notes'',
      [],
      ''- These files are for demonstration and testing purposes'',
      ''- Ensure you have sufficient memory to load large point clouds'',
      ''- Processing time varies based on scene complexity'']"

text \<open>One line of the file list, line 98.\<close>

definition readme_line :: "nat \<Rightarrow> path \<Rightarrow> nat \<Rightarrow> string" where
  "readme_line i file_path size_bytes =
     str_nat i @ ''. `'' @ name file_path @ ''` ('' @ fmt_mb size_bytes @ '' MB)'' @ [nl]"

text \<open>The loop of lines 94 to 98 over \<^verbatim>\<open>enumerate(downloaded_files, 1)\<close>.\<close>

fun readme_loop :: "filesystem \<Rightarrow> path \<Rightarrow> (nat \<times> string) list \<Rightarrow> string \<Rightarrow> string" where
  "readme_loop d output_dir [] content = content"
| "readme_loop d output_dir ((i, filename) # rest) content =
     (let file_path = joinpath output_dir (Path_name filename)
      in case stat d file_path of
           Some nd \<Rightarrow>
             readme_loop d output_dir rest (content @ readme_line i file_path (st_size nd))
         | None \<Rightarrow> readme_loop d output_dir rest content)"

definition readme_content :: "filesystem \<Rightarrow> path \<Rightarrow> string list \<Rightarrow> string" where
  "readme_content d output_dir downloaded_files =
     readme_loop d output_dir (enumerate 1 downloaded_files)
       (readme_head (length downloaded_files)) @ readme_tail"

definition create_readme :: "path \<Rightarrow> string list \<Rightarrow> 'n world \<Rightarrow> (exn + unit) \<times> 'n world" where
  "create_readme output_dir downloaded_files w =
     (let readme_path = joinpath output_dir ''README.md'';
          content = readme_content (disk w) output_dir downloaded_files;
          w1 = called (WriteText readme_path content) w
      in case write_text (disk w1) readme_path content of
           Inl e \<Rightarrow> (Inl e, w1)
         | Inr d' \<Rightarrow>
             (Inr (), print (nl # ''Created: '' @ str_path readme_path) (w1\<lparr>disk := d'\<rparr>)))"

subsection \<open>\<^verbatim>\<open>main\<close>\<close>

text \<open>
  The parsed command line: \<^verbatim>\<open>args.count\<close>, \<^verbatim>\<open>args.output_dir\<close> and \<^verbatim>\<open>args.list\<close>.
  \<^verbatim>\<open>--count\<close> has \<^verbatim>\<open>type=int\<close>, so any integer arrives, a negative one too.
\<close>

record args =
  arg_count :: int
  arg_output_dir :: path
  arg_list :: bool

text \<open>
  How a run ends: \<^verbatim>\<open>main\<close> returns, \<^verbatim>\<open>sys.exit(k)\<close> is called, or an exception reaches
  the top, which the interpreter reports with a traceback and status 1.
\<close>

datatype outcome = Returned | SysExit int | Uncaught exn

fun exit_status :: "outcome \<Rightarrow> int" where
  "exit_status Returned = 0"
| "exit_status (SysExit k) = k"
| "exit_status (Uncaught e) = 1"

text \<open>
  The slice \<^verbatim>\<open>xs[:stop]\<close>: a negative \<open>stop\<close> counts from the end, and the bound is
  then clipped to the list.
\<close>

definition slice_to :: "'a list \<Rightarrow> int \<Rightarrow> 'a list" where
  "slice_to xs stop =
     (let n = int (length xs);
          s = (if stop < 0 then max (stop + n) 0 else min stop n)
      in take (nat s) xs)"

definition hrule :: "char \<Rightarrow> string" where
  "hrule c = replicate 70 c"

text \<open>Lines 143 to 149, up to the call of \<^verbatim>\<open>list_available_scenes\<close>.\<close>

definition banner :: "'n world \<Rightarrow> 'n world" where
  "banner w =
     print (nl # ''Fetching available files from '' @ REPO_ID @ ''...'')
       (print (hrule CHR ''='')
         (print ''SpatialLM3D Dataset Downloader''
           (print (hrule CHR ''='') w)))"

text \<open>The loop of lines 159 and 160.\<close>

fun print_catalog :: "(nat \<times> string) list \<Rightarrow> 'n world \<Rightarrow> 'n world" where
  "print_catalog [] w = w"
| "print_catalog ((i, filename) # rest) w =
     print_catalog rest (print (''  '' @ str_nat i @ ''. '' @ filename) w)"

text \<open>The loop of lines 174 to 176, with the list \<^verbatim>\<open>downloaded\<close> as an accumulator.\<close>

fun download_loop ::
  "'n hub \<Rightarrow> path \<Rightarrow> string list \<Rightarrow> string list \<Rightarrow> 'n world \<Rightarrow> string list \<times> 'n world" where
  "download_loop h output_dir [] downloaded w = (downloaded, w)"
| "download_loop h output_dir (filename # rest) downloaded w =
     (case download_ply_file h REPO_ID filename output_dir w of
        (True, w') \<Rightarrow> download_loop h output_dir rest (downloaded @ [filename]) w'
      | (False, w') \<Rightarrow> download_loop h output_dir rest downloaded w')"

text \<open>Lines 178 to 187, after the loop.\<close>

definition summary :: "path \<Rightarrow> int \<Rightarrow> string list \<Rightarrow> 'n world \<Rightarrow> outcome \<times> 'n world" where
  "summary output_dir count_clamped downloaded w =
     (let w1 = print (hrule CHR ''-'') w;
          w2 = print (nl # ''Download complete: '' @ str_nat (length downloaded) @ ''/''
                        @ str_int count_clamped @ '' files successful'') w1
      in if downloaded \<noteq> [] then
           (case create_readme output_dir downloaded w2 of
              (Inl e, w3) \<Rightarrow> (Uncaught e, w3)
            | (Inr u, w3) \<Rightarrow>
                (Returned,
                 print (nl # ''Sample files ready for use in SpatialLM3D application!'') w3))
         else
           (SysExit 1, print (nl # ''WARNING: No files were downloaded successfully.'') w2))"

text \<open>
  Lines 163 to 176: the directory, the clamped count and the loop. \<open>Inl\<close> is an
  exception of \<^verbatim>\<open>mkdir\<close>, which nothing catches; \<open>Inr\<close> is the list \<^verbatim>\<open>downloaded\<close>.
\<close>

definition fetch_files ::
  "args \<Rightarrow> 'n hub \<Rightarrow> string list \<Rightarrow> 'n world \<Rightarrow> (exn + string list) \<times> 'n world" where
  "fetch_files a h available_files w =
     (let output_dir = arg_output_dir a;
          w1 = called (Mkdir output_dir) w
      in case mkdir_parents (disk w1) output_dir of
           Inl e \<Rightarrow> (Inl e, w1)
         | Inr d' \<Rightarrow>
             (let w2 = print (nl # ''Output directory: '' @ str_path output_dir) (w1\<lparr>disk := d'\<rparr>);
                  count_clamped = min (arg_count a) (int (length available_files));
                  w3 = print (nl # ''Downloading '' @ str_int count_clamped @ '' sample files...'') w2;
                  w4 = print (hrule CHR ''-'') w3;
                  (downloaded, w5) =
                    download_loop h output_dir (slice_to available_files count_clamped) [] w4
              in (Inr downloaded, w5)))"

text \<open>Lines 163 to 187.\<close>

definition fetch ::
  "args \<Rightarrow> 'n hub \<Rightarrow> string list \<Rightarrow> 'n world \<Rightarrow> outcome \<times> 'n world" where
  "fetch a h available_files w =
     (case fetch_files a h available_files w of
        (Inl e, w1) \<Rightarrow> (Uncaught e, w1)
      | (Inr downloaded, w5) \<Rightarrow>
          summary (arg_output_dir a) (min (arg_count a) (int (length available_files)))
            downloaded w5)"

text \<open>Lines 143 to 187 of \<^verbatim>\<open>main()\<close>, on the arguments \<^verbatim>\<open>parse_args\<close> returned.\<close>

definition main :: "args \<Rightarrow> 'n hub \<Rightarrow> 'n world \<Rightarrow> outcome \<times> 'n world" where
  "main a h w =
     (let (available_files, w1) = list_available_scenes h REPO_ID (banner w)
      in if available_files = [] then
           (SysExit 1, print ''ERROR: No PLY files found in repository.'' w1)
         else
           (let w2 = print (''Found '' @ str_nat (length available_files)
                              @ '' PLY files in repository.'') w1
            in if arg_list a then
                 (SysExit 0,
                  print_catalog (enumerate 1 available_files)
                    (print (nl # ''Available PLY files:'') w2))
               else fetch a h available_files w2))"

text \<open>
  What \<^verbatim>\<open>parser.parse_args()\<close> of line 141 does with the command line. The parser is
  the standard library's, so the result is given: the \<^verbatim>\<open>Namespace\<close> of the three
  options; or, for \<^verbatim>\<open>-h\<close> and \<^verbatim>\<open>--help\<close> (the parser is built with its default
  \<^verbatim>\<open>add_help\<close>), the help text, which it prints before it calls \<^verbatim>\<open>sys.exit(0)\<close>; or
  the message of a usage error, which it writes to the standard error (not held in the
  world) before it calls \<^verbatim>\<open>sys.exit(2)\<close>.
\<close>

datatype parsed = Namespace args | HelpExit string | UsageExit string

text \<open>
  \<^verbatim>\<open>main()\<close> from its first line: lines 120 to 141 build the parser and parse the
  command line, and lines 143 to 187, which are \<open>main\<close> above, run on the arguments when
  the parser returns them.
\<close>

definition main_cli :: "parsed \<Rightarrow> 'n hub \<Rightarrow> 'n world \<Rightarrow> outcome \<times> 'n world" where
  "main_cli cmd h w =
     (case cmd of
        Namespace a \<Rightarrow> main a h w
      | HelpExit help_text \<Rightarrow> (SysExit 0, print help_text w)
      | UsageExit message \<Rightarrow> (SysExit 2, w))"

text \<open>
  The script from its first line: when the imports of lines 18 to 20 fail
  (\<open>imports_ok\<close> is false), lines 22 to 24 print two lines and exit with status 1;
  otherwise \<^verbatim>\<open>main()\<close> runs.
\<close>

definition script :: "bool \<Rightarrow> parsed \<Rightarrow> 'n hub \<Rightarrow> 'n world \<Rightarrow> outcome \<times> 'n world" where
  "script imports_ok cmd h w =
     (if \<not> imports_ok then
        (SysExit 1,
         print ''Please run: pip install huggingface-hub requests''
           (print ''ERROR: Required packages not installed.'' w))
      else main_cli cmd h w)"

subsection \<open>What a run did\<close>

text \<open>
  Three readings of a run, for the statements below: the files whose download was
  attempted, in order; the catalog \<^verbatim>\<open>main\<close> works with; and the list
  \<^verbatim>\<open>downloaded\<close> when the loop ends (empty when the run ends before the loop).
\<close>

fun fetched_name :: "call \<Rightarrow> string list" where
  "fetched_name (HfHubDownload repo_id filename local_dir) = [filename]"
| "fetched_name c = []"

definition attempts :: "call list \<Rightarrow> string list" where
  "attempts cs = concat (map fetched_name cs)"



subsection \<open>A sample remote\<close>

text \<open>
  A remote for the concrete runs below: the listing is fixed; a download raises for the
  names in \<open>broken\<close>, and otherwise writes the file below the local directory at the path
  its name gives, making the directories on the way, its bytes being its name.
\<close>

definition sample_download ::
  "string list \<Rightarrow> string \<Rightarrow> string \<Rightarrow> path \<Rightarrow> filesystem \<Rightarrow> unit
     \<Rightarrow> (exn + path) \<times> filesystem \<times> unit" where
  "sample_download broken repo_id filename local_dir d n =
     (if filename \<in> set broken then (Inl (Exception ''404 Not Found''), d, n)
      else (let p = local_dir @ components filename
            in case mkdir_parents d (parent p) of
                 Inl e \<Rightarrow> (Inl e, d, n)
               | Inr d1 \<Rightarrow>
                   (case write_text d1 p filename of
                      Inl e \<Rightarrow> (Inl e, d1, n)
                    | Inr d2 \<Rightarrow> (Inr p, d2, n))))"

definition sample_hub :: "exn + string list \<Rightarrow> string list \<Rightarrow> unit hub" where
  "sample_hub listing broken =
     \<lparr>list_repo_files = (\<lambda>repo_id n. (listing, n)),
      hf_hub_download = sample_download broken\<rparr>"

definition start :: "filesystem \<Rightarrow> unit world" where
  "start d = \<lparr>disk = d, net = (), stdout = [], calls = []\<rparr>"

definition abc :: "string list" where
  "abc = [''a.ply'', ''b.ply'', ''c.ply'']"

text \<open>
  A disk with an output directory \<^verbatim>\<open>/out\<close> that holds a directory \<^verbatim>\<open>pcd\<close> with
  one file in it.
\<close>

definition pcd_disk :: filesystem where
  "pcd_disk = [([''out''], Dir), ([''out'', ''pcd''], Dir),
               ([''out'', ''pcd'', ''keep.txt''], File ''x'')]"


definition one_file :: args where
  "one_file = \<lparr>arg_count = 1, arg_output_dir = [''out''], arg_list = False\<rparr>"

section \<open>Properties\<close>

subsection \<open>Text and the order of names\<close>

lemma endswith_suffix: "endswith s suf \<longleftrightarrow> suffix suf s"
proof
  assume "endswith s suf"
  then have "s = take (length s - length suf) s @ suf"
    unfolding endswith_def by (metis append_take_drop_id)
  then show "suffix suf s" by (metis suffixI)
next
  assume "suffix suf s"
  then obtain pre where "s = pre @ suf" by (auto simp: suffix_def)
  then show "endswith s suf" by (simp add: endswith_def)
qed

text \<open>The order on names is the lexicographic order on character codes.\<close>

lemma string_le_lexord:
  "(a::string) \<le> b \<longleftrightarrow> a = b \<or> (a, b) \<in> lexord {(c, c'). (of_char c :: nat) < of_char c'}"
  by (auto simp: list_le_def list_less_def less_char_def)

subsection \<open>What each step leaves alone\<close>

lemma print_fields [simp]:
  "disk (print s w) = disk w" "net (print s w) = net w"
  "calls (print s w) = calls w" "stdout (print s w) = stdout w @ [s]"
  by (simp_all add: print_def)

lemma called_fields [simp]:
  "disk (called c w) = disk w" "net (called c w) = net w"
  "calls (called c w) = calls w @ [c]" "stdout (called c w) = stdout w"
  by (simp_all add: called_def)

lemma banner_fields [simp]:
  "disk (banner w) = disk w" "net (banner w) = net w" "calls (banner w) = calls w"
  "stdout (banner w) =
     stdout w @ [hrule CHR ''='', ''SpatialLM3D Dataset Downloader'', hrule CHR ''='',
                 nl # ''Fetching available files from '' @ REPO_ID @ ''...'']"
  by (simp_all add: banner_def)

lemma print_catalog_fields [simp]:
  "disk (print_catalog xs w) = disk w" "net (print_catalog xs w) = net w"
  "calls (print_catalog xs w) = calls w"
  "stdout (print_catalog xs w) =
     stdout w @ map (\<lambda>(i, filename). ''  '' @ str_nat i @ ''. '' @ filename) xs"
  by (induction xs arbitrary: w; auto)+

lemma list_available_scenes_frame [simp]:
  "disk (snd (list_available_scenes h repo_id w)) = disk w"
  "calls (snd (list_available_scenes h repo_id w)) = calls w @ [ListRepoFiles repo_id]"
  by (auto simp: list_available_scenes_def Let_def split: prod.splits sum.splits)

lemma sample_listing [simp]:
  "list_repo_files (sample_hub listing broken) repo_id n = (listing, n)"
  by (simp add: sample_hub_def)

lemma sample_catalog_abc:
  "fst (list_available_scenes (sample_hub (Inr abc) broken) REPO_ID w) = abc"
  by (simp add: list_available_scenes_def abc_def endswith_def)

subsection \<open>The catalog lister\<close>

text \<open>
  C1. When the listing query answers, \<^verbatim>\<open>list_available_scenes\<close> returns the entries
  that end in \<^verbatim>\<open>.ply\<close>, each as often as the answer has it, in sorted order. When the
  query raises, it prints the error and returns the empty list. Its result type has no
  exception: nothing is raised past it.
\<close>

theorem list_available_scenes_sorted_ply:
  "(list_repo_files h repo_id (net w) = (Inr all_files, n') \<longrightarrow>
      sorted (fst (list_available_scenes h repo_id w)) \<and>
      mset (fst (list_available_scenes h repo_id w)) =
        filter_mset (suffix ''.ply'') (mset all_files)) \<and>
   (list_repo_files h repo_id (net w) = (Inl e, n') \<longrightarrow>
      fst (list_available_scenes h repo_id w) = [] \<and>
      stdout (snd (list_available_scenes h repo_id w)) =
        stdout w @ [''ERROR: Failed to list repository files: '' @ str_exn e])"
  by (simp add: list_available_scenes_def endswith_suffix)

theorem list_available_scenes_sorted_ply_witness:
  "list_repo_files (sample_hub (Inr [''b.ply'', ''notes.txt'', ''a.ply'']) []) REPO_ID
      (net (start [])) = (Inr [''b.ply'', ''notes.txt'', ''a.ply''], ()) \<and>
   sorted (fst (list_available_scenes
      (sample_hub (Inr [''b.ply'', ''notes.txt'', ''a.ply'']) []) REPO_ID (start []))) \<and>
   mset (fst (list_available_scenes
      (sample_hub (Inr [''b.ply'', ''notes.txt'', ''a.ply'']) []) REPO_ID (start []))) =
     mset [''b.ply'', ''a.ply''] \<and>
   list_repo_files (sample_hub (Inl (Exception ''offline'')) []) REPO_ID
      (net (start [])) = (Inl (Exception ''offline''), ()) \<and>
   fst (list_available_scenes (sample_hub (Inl (Exception ''offline'')) []) REPO_ID
      (start [])) = [] \<and>
   stdout (snd (list_available_scenes (sample_hub (Inl (Exception ''offline'')) []) REPO_ID
      (start []))) = [''ERROR: Failed to list repository files: offline'']"
  using list_available_scenes_sorted_ply
      [where h = "sample_hub (Inr [''b.ply'', ''notes.txt'', ''a.ply'']) []"
         and repo_id = REPO_ID and w = "start []"
         and all_files = "[''b.ply'', ''notes.txt'', ''a.ply'']" and n' = "()"]
    list_available_scenes_sorted_ply
      [where h = "sample_hub (Inl (Exception ''offline'')) []"
         and repo_id = REPO_ID and w = "start []"
         and e = "Exception ''offline''" and n' = "()"]
  by (simp add: start_def suffix_def)

subsection \<open>The run\<close>

text \<open>
  C3. With \<^verbatim>\<open>--list\<close> and a catalog that is not empty, \<^verbatim>\<open>main\<close> prints the catalog
  numbered from 1 and calls \<^verbatim>\<open>sys.exit(0)\<close>; the disk is as it was (no output directory
  is made), and the only call made to the outside is the listing (no download).
\<close>

theorem main_list_only:
  assumes "fst (list_available_scenes h REPO_ID (banner w)) = catalog"
    and "catalog \<noteq> []" and "arg_list a"
  shows "fst (main a h w) = SysExit 0 \<and>
         exit_status (fst (main a h w)) = 0 \<and>
         disk (snd (main a h w)) = disk w \<and>
         calls (snd (main a h w)) = calls w @ [ListRepoFiles REPO_ID] \<and>
         stdout (snd (main a h w)) =
           stdout (snd (list_available_scenes h REPO_ID (banner w)))
           @ [''Found '' @ str_nat (length catalog) @ '' PLY files in repository.'',
              nl # ''Available PLY files:'']
           @ map (\<lambda>(i, filename). ''  '' @ str_nat i @ ''. '' @ filename)
               (enumerate 1 catalog)"
  using assms by (simp add: main_def Let_def case_prod_beta)

theorem main_list_only_witness:
  "fst (list_available_scenes (sample_hub (Inr abc) []) REPO_ID (banner (start []))) = abc \<and>
   abc \<noteq> [] \<and>
   arg_list \<lparr>arg_count = 5, arg_output_dir = [''out''], arg_list = True\<rparr> \<and>
   fst (main \<lparr>arg_count = 5, arg_output_dir = [''out''], arg_list = True\<rparr>
          (sample_hub (Inr abc) []) (start [])) = SysExit 0 \<and>
   disk (snd (main \<lparr>arg_count = 5, arg_output_dir = [''out''], arg_list = True\<rparr>
          (sample_hub (Inr abc) []) (start []))) = [] \<and>
   calls (snd (main \<lparr>arg_count = 5, arg_output_dir = [''out''], arg_list = True\<rparr>
          (sample_hub (Inr abc) []) (start []))) = [ListRepoFiles REPO_ID]"
proof -
  have c: "fst (list_available_scenes (sample_hub (Inr abc) []) REPO_ID (banner (start []))) = abc"
    by (rule sample_catalog_abc)
  have n: "abc \<noteq> []" by (simp add: abc_def)
  have l: "arg_list \<lparr>arg_count = 5, arg_output_dir = [''out''], arg_list = True\<rparr>" by simp
  show ?thesis
    using main_list_only [OF c n l] c n by (simp add: start_def)
qed

text \<open>
  C7. With an empty catalog (the listing has no \<^verbatim>\<open>.ply\<close> name, or the query failed)
  \<^verbatim>\<open>main\<close> prints the line that no PLY files were found, last, and calls
  \<^verbatim>\<open>sys.exit(1)\<close>; the disk is as it was, and the only call made to the outside is
  the listing: no directory is made, nothing is downloaded, no summary is written.
\<close>

theorem main_empty_catalog:
  assumes "fst (list_available_scenes h REPO_ID (banner w)) = []"
  shows "fst (main a h w) = SysExit 1 \<and>
         exit_status (fst (main a h w)) = 1 \<and>
         disk (snd (main a h w)) = disk w \<and>
         calls (snd (main a h w)) = calls w @ [ListRepoFiles REPO_ID] \<and>
         stdout (snd (main a h w)) =
           stdout (snd (list_available_scenes h REPO_ID (banner w)))
           @ [''ERROR: No PLY files found in repository.'']"
  using assms by (simp add: main_def Let_def case_prod_beta)

theorem main_empty_catalog_witness:
  "fst (list_available_scenes (sample_hub (Inr [''notes.txt'']) []) REPO_ID
          (banner (start [([''out''], Dir)]))) = [] \<and>
   exit_status (fst (main \<lparr>arg_count = 5, arg_output_dir = [''out''], arg_list = False\<rparr>
          (sample_hub (Inr [''notes.txt'']) []) (start [([''out''], Dir)]))) = 1 \<and>
   disk (snd (main \<lparr>arg_count = 5, arg_output_dir = [''out''], arg_list = False\<rparr>
          (sample_hub (Inr [''notes.txt'']) []) (start [([''out''], Dir)]))) = [([''out''], Dir)] \<and>
   calls (snd (main \<lparr>arg_count = 5, arg_output_dir = [''out''], arg_list = False\<rparr>
          (sample_hub (Inr [''notes.txt'']) []) (start [([''out''], Dir)]))) =
     [ListRepoFiles REPO_ID]"
proof -
  have c: "fst (list_available_scenes (sample_hub (Inr [''notes.txt'']) []) REPO_ID
             (banner (start [([''out''], Dir)]))) = []"
    by (simp add: list_available_scenes_def endswith_def)
  show ?thesis
    using main_empty_catalog [OF c] c by (simp add: start_def)
qed

subsection \<open>The downloads a run attempts\<close>

lemma attempts_simps [simp]:
  "attempts [] = []" "attempts (cs @ cs') = attempts cs @ attempts cs'"
  "attempts (c # cs) = fetched_name c @ attempts cs"
  by (simp_all add: attempts_def)

lemma relocate_attempts [simp]:
  "attempts (calls (snd (relocate s t w))) = attempts (calls w)"
  by (simp add: relocate_def Let_def split: sum.splits)

lemma download_body_attempts [simp]:
  "attempts (calls (snd (download_body h repo_id filename output_dir w))) =
     attempts (calls w) @ [filename]"
  by (simp add: download_body_def Let_def case_prod_beta split: sum.splits option.splits)

lemma download_ply_file_attempts [simp]:
  "attempts (calls (snd (download_ply_file h repo_id filename output_dir w))) =
     attempts (calls w) @ [filename]"
proof -
  obtain r w' where b: "download_body h repo_id filename output_dir w = (r, w')"
    by (cases "download_body h repo_id filename output_dir w")
  have "attempts (calls w') = attempts (calls w) @ [filename]"
    using download_body_attempts [of h repo_id filename output_dir w] b by simp
  then show ?thesis
    by (simp add: download_ply_file_def b split: sum.splits)
qed

lemma download_loop_attempts:
  "attempts (calls (snd (download_loop h output_dir files downloaded w))) =
     attempts (calls w) @ files"
proof (induction files arbitrary: downloaded w)
  case Nil
  show ?case by simp
next
  case (Cons f files)
  obtain ok w' where d: "download_ply_file h REPO_ID f output_dir w = (ok, w')"
    by (cases "download_ply_file h REPO_ID f output_dir w")
  have "attempts (calls w') = attempts (calls w) @ [f]"
    using download_ply_file_attempts [of h REPO_ID f output_dir w] d by simp
  then show ?case
    using Cons.IH by (cases ok) (simp_all add: d)
qed

lemma create_readme_attempts [simp]:
  "attempts (calls (snd (create_readme output_dir downloaded w))) = attempts (calls w)"
  by (simp add: create_readme_def Let_def split: sum.splits)

lemma summary_attempts [simp]:
  "attempts (calls (snd (summary output_dir c downloaded w))) = attempts (calls w)"
  by (simp add: summary_def Let_def case_prod_beta split: sum.splits)

lemma fetch_files_attempts:
  "attempts (calls (snd (fetch_files a h available_files w))) =
     (case mkdir_parents (disk w) (arg_output_dir a) of
        Inl e \<Rightarrow> attempts (calls w)
      | Inr d' \<Rightarrow>
          attempts (calls w)
          @ slice_to available_files (min (arg_count a) (int (length available_files))))"
  by (simp add: fetch_files_def Let_def case_prod_beta download_loop_attempts split: sum.splits)

lemma fetch_attempts:
  "attempts (calls (snd (fetch a h available_files w))) =
     attempts (calls (snd (fetch_files a h available_files w)))"
  by (cases "fetch_files a h available_files w") (simp add: fetch_def split: sum.splits)

text \<open>
  The downloads of a whole run that reaches the loop: the slice of the catalog, one
  attempt for each of its names, in its order, whatever each attempt returns.
\<close>

lemma main_attempts:
  assumes "fst (list_available_scenes h REPO_ID (banner w)) = catalog"
    and "catalog \<noteq> []" and "\<not> arg_list a"
    and "mkdir_parents (disk w) (arg_output_dir a) = Inr d'"
  shows "attempts (calls (snd (main a h w))) =
           attempts (calls w) @ slice_to catalog (min (arg_count a) (int (length catalog)))"
  using assms
  by (simp add: main_def Let_def case_prod_beta fetch_attempts fetch_files_attempts)

lemma slice_to_clamped_nonneg:
  "0 \<le> c \<Longrightarrow> slice_to xs (min c (int (length xs))) = take (nat (min c (int (length xs)))) xs"
  by (simp add: slice_to_def Let_def)

lemma slice_to_clamped_neg:
  "c < 0 \<Longrightarrow> slice_to xs (min c (int (length xs))) = take (nat (max 0 (int (length xs) + c))) xs"
  by (simp add: slice_to_def Let_def min_def max_def add.commute)

lemma slice_to_clamped_empty:
  "slice_to xs (min c (int (length xs))) = [] \<longleftrightarrow> xs = [] \<or> c = 0 \<or> c \<le> - int (length xs)"
  by (auto simp: slice_to_def Let_def min_def max_def)

lemma take_all_but_last:
  "c < 0 \<Longrightarrow> take (nat (max 0 (int (length xs) + c))) xs = rev (drop (nat (- c)) (rev xs))"
proof -
  assume "c < 0"
  then have "nat (max 0 (int (length xs) + c)) = length xs - nat (- c)" by (simp add: max_def) linarith
  then show ?thesis by (simp add: rev_drop)
qed

lemma mkdir_parents_fresh: "mkdir_parents [] [''out''] = Inr [([''out''], Dir)]"
  by (simp add: mkdir_parents.simps os_mkdir_def exists_def is_dir_def stat_def parent_def)


lemma start_fields [simp]:
  "disk (start d) = d" "net (start d) = ()" "stdout (start d) = []" "calls (start d) = []"
  by (simp_all add: start_def)

lemma sample_catalog_start:
  "fst (list_available_scenes (sample_hub (Inr abc) broken) REPO_ID (banner (start []))) = abc"
  by (rule sample_catalog_abc)

lemma abc_not_empty: "abc \<noteq> []"
  by (simp add: abc_def)

lemma sample_args_not_list:
  "\<not> arg_list \<lparr>arg_count = c, arg_output_dir = [''out''], arg_list = False\<rparr>"
  by simp

lemma sample_args_mkdir:
  "mkdir_parents (disk (start []))
     (arg_output_dir \<lparr>arg_count = c, arg_output_dir = [''out''], arg_list = False\<rparr>) =
     Inr [([''out''], Dir)]"
  by (simp add: start_def mkdir_parents_fresh)

subsection \<open>The file fetcher: failures\<close>

lemma download_body_raises_cases:
  "fst (download_body h repo_id filename output_dir w) = Inl e \<longleftrightarrow>
     (case hf_hub_download h repo_id filename output_dir (disk w) (net w) of
        (Inl e', d', n') \<Rightarrow> e' = e
      | (Inr local_path, d', n') \<Rightarrow>
          (let target_file = joinpath output_dir (name local_path)
           in if local_path = target_file then stat d' target_file = None \<and> e = FileNotFoundError
              else (case os_rename d' local_path target_file of
                      Inl e' \<Rightarrow> e' = e
                    | Inr d1 \<Rightarrow>
                        stat (case os_rmdir d1 (parent local_path) of
                                Inl e' \<Rightarrow> d1 | Inr d2 \<Rightarrow> d2) target_file = None
                        \<and> e = FileNotFoundError)))"
  by (auto simp: download_body_def relocate_def Let_def
           split: prod.splits sum.splits option.splits)

text \<open>
  C5. When anything in the body of \<^verbatim>\<open>download_ply_file\<close> raises, the function returns
  \<^verbatim>\<open>False\<close> after printing the error line; an exception of the download itself is one
  such case (the lemma above lists them all: the download, the rename, the size). Its result
  type has no exception. The loop of \<^verbatim>\<open>main\<close> attempts every name of its list, in
  order, whatever the attempts before returned.
\<close>

theorem download_failure_is_local:
  "(fst (download_body h repo_id filename output_dir w) = Inl e \<longrightarrow>
      fst (download_ply_file h repo_id filename output_dir w) = False \<and>
      stdout (snd (download_ply_file h repo_id filename output_dir w)) =
        stdout (snd (download_body h repo_id filename output_dir w))
        @ [''  ERROR: Failed to download '' @ filename @ '': '' @ str_exn e]) \<and>
   (fst (hf_hub_download h repo_id filename output_dir (disk w) (net w)) = Inl e \<longrightarrow>
      fst (download_body h repo_id filename output_dir w) = Inl e) \<and>
   attempts (calls (snd (download_loop h output_dir files downloaded w))) =
     attempts (calls w) @ files"
proof -
  have "fst (download_ply_file h repo_id filename output_dir w) = False \<and>
      stdout (snd (download_ply_file h repo_id filename output_dir w)) =
        stdout (snd (download_body h repo_id filename output_dir w))
        @ [''  ERROR: Failed to download '' @ filename @ '': '' @ str_exn e]"
    if "fst (download_body h repo_id filename output_dir w) = Inl e"
    using that by (simp add: download_ply_file_def case_prod_beta)
  moreover have "fst (download_body h repo_id filename output_dir w) = Inl e"
    if "fst (hf_hub_download h repo_id filename output_dir (disk w) (net w)) = Inl e"
    using that
    by (cases "hf_hub_download h repo_id filename output_dir (disk w) (net w)")
       (simp add: download_body_def Let_def)
  ultimately show ?thesis
    by (simp add: download_loop_attempts)
qed

theorem download_failure_is_local_witness:
  "fst (hf_hub_download (sample_hub (Inr abc) [''b.ply'']) REPO_ID ''b.ply'' [''out'']
          (disk (start [])) (net (start []))) = Inl (Exception ''404 Not Found'') \<and>
   fst (download_body (sample_hub (Inr abc) [''b.ply'']) REPO_ID ''b.ply'' [''out'']
          (start [])) = Inl (Exception ''404 Not Found'') \<and>
   fst (download_ply_file (sample_hub (Inr abc) [''b.ply'']) REPO_ID ''b.ply'' [''out'']
          (start [])) = False \<and>
   stdout (snd (download_ply_file (sample_hub (Inr abc) [''b.ply'']) REPO_ID ''b.ply''
          [''out''] (start []))) =
     [''Downloading: b.ply...'', ''  ERROR: Failed to download b.ply: 404 Not Found''] \<and>
   attempts (calls (snd (download_loop (sample_hub (Inr abc) [''b.ply'']) [''out''] abc []
          (start [])))) = abc"
proof -
  have h: "fst (hf_hub_download (sample_hub (Inr abc) [''b.ply'']) REPO_ID ''b.ply'' [''out'']
          (disk (start [])) (net (start []))) = Inl (Exception ''404 Not Found'')"
    by (simp add: sample_hub_def sample_download_def)
  have s: "stdout (snd (download_body (sample_hub (Inr abc) [''b.ply'']) REPO_ID ''b.ply''
          [''out''] (start []))) = [''Downloading: b.ply...'']"
    by (simp add: download_body_def sample_hub_def sample_download_def start_def)
  show ?thesis
    using download_failure_is_local
      [where h = "sample_hub (Inr abc) [''b.ply'']" and repo_id = REPO_ID
         and filename = "''b.ply''" and output_dir = "[''out'']" and w = "start []"
         and e = "Exception ''404 Not Found''" and files = abc and downloaded = "[]"]
      h s
    by (simp add: start_def)
qed

subsection \<open>The count\<close>

text \<open>
  For a count that is not negative the loop attempts the first \<open>min count N\<close> names of
  the catalog.
\<close>

lemma main_attempts_nonneg:
  assumes "fst (list_available_scenes h REPO_ID (banner w)) = catalog"
    and "catalog \<noteq> []" and "\<not> arg_list a"
    and "mkdir_parents (disk w) (arg_output_dir a) = Inr d'"
    and "0 \<le> arg_count a"
  shows "attempts (calls (snd (main a h w))) =
           attempts (calls w) @ take (nat (min (arg_count a) (int (length catalog)))) catalog"
  using main_attempts [OF assms(1-4)] assms(5) by (simp add: slice_to_clamped_nonneg)

lemma main_attempts_scenario:
  "attempts (calls (snd (main \<lparr>arg_count = 2, arg_output_dir = [''out''], arg_list = False\<rparr>
      (sample_hub (Inr abc) broken) (start [])))) = [''a.ply'', ''b.ply'']"
  using main_attempts_nonneg [OF sample_catalog_start [of "broken"] abc_not_empty sample_args_not_list [of "2"] sample_args_mkdir [of "2"]]
  by (simp add: start_def abc_def)

text \<open>
  C9, amended. In a run that reaches the loop with a negative count \<open>c\<close> and a catalog of
  \<open>N\<close> names, the downloads attempted are the first \<open>max 0 (N + c)\<close> names, that is all
  but the last \<open>|c|\<close>. Nothing is attempted exactly when the count is 0 or at most \<open>-N\<close>.
\<close>

theorem main_negative_count:
  assumes "fst (list_available_scenes h REPO_ID (banner w)) = catalog"
    and "catalog \<noteq> []" and "\<not> arg_list a"
    and "mkdir_parents (disk w) (arg_output_dir a) = Inr d'"
  shows "(arg_count a < 0 \<longrightarrow>
            attempts (calls (snd (main a h w))) =
              attempts (calls w) @ take (nat (max 0 (int (length catalog) + arg_count a))) catalog \<and>
            take (nat (max 0 (int (length catalog) + arg_count a))) catalog =
              rev (drop (nat (- arg_count a)) (rev catalog))) \<and>
         (attempts (calls (snd (main a h w))) = attempts (calls w) \<longleftrightarrow>
            arg_count a = 0 \<or> arg_count a \<le> - int (length catalog))"
proof -
  note m = main_attempts [OF assms]
  have e: "attempts (calls (snd (main a h w))) = attempts (calls w) \<longleftrightarrow>
          arg_count a = 0 \<or> arg_count a \<le> - int (length catalog)"
    using m slice_to_clamped_empty [of catalog "arg_count a"] assms(2) by simp
  have n: "attempts (calls (snd (main a h w))) =
             attempts (calls w) @ take (nat (max 0 (int (length catalog) + arg_count a))) catalog"
    if "arg_count a < 0"
    using m slice_to_clamped_neg [OF that, of catalog] by simp
  show ?thesis
    using e n take_all_but_last [of "arg_count a" catalog] by blast
qed

theorem main_negative_count_witness:
  "fst (list_available_scenes (sample_hub (Inr abc) []) REPO_ID (banner (start []))) = abc \<and>
   abc \<noteq> [] \<and>
   mkdir_parents (disk (start [])) [''out''] = Inr [([''out''], Dir)] \<and>
   attempts (calls (snd (main \<lparr>arg_count = - 2, arg_output_dir = [''out''], arg_list = False\<rparr>
      (sample_hub (Inr abc) []) (start [])))) = [''a.ply'']"
  using main_negative_count [OF sample_catalog_start [of "[]"] abc_not_empty sample_args_not_list [of "- 2"] sample_args_mkdir [of "- 2"]]
    sample_catalog_start [of "[]"] abc_not_empty sample_args_mkdir [of "- 2"]
  by (simp add: abc_def)

text \<open>
  As C9 is written, only the count 0 attempts nothing. With the catalog of three names
  the count \<open>-3\<close> attempts nothing either.
\<close>

theorem only_zero_attempts_nothing_counterexample:
  "\<not> (attempts (calls (snd (main \<lparr>arg_count = - 3, arg_output_dir = [''out''], arg_list = False\<rparr>
          (sample_hub (Inr abc) []) (start [])))) = [] \<longrightarrow> (- 3 :: int) = 0)"
  using main_attempts [OF sample_catalog_start [of "[]"] abc_not_empty sample_args_not_list [of "- 3"] sample_args_mkdir [of "- 3"]]
  by (simp add: start_def abc_def slice_to_def)

subsection \<open>The file system\<close>

lemma map_of_filter_key:
  "map_of (filter (\<lambda>(q, n). P q) d) p = (if P p then map_of d p else None)"
  by (induction d) auto

lemma map_of_moved:
  "map_of [(dst @ drop (length src) q, n). (q, n) \<leftarrow> d, prefix src q] dst = map_of d src"
proof (induction d)
  case Nil
  show ?case by simp
next
  case (Cons b d)
  obtain q n where b: "b = (q, n)" by (cases b)
  have "dst @ drop (length src) q = dst \<longleftrightarrow> q = src" if "prefix src q"
    using that by (auto simp: prefix_def)
  then show ?case
    using Cons.IH by (auto simp: b)
qed

lemma stat_move_dst:
  assumes "src \<noteq> []" and "dst \<noteq> []"
  shows "stat (move d src dst) dst = stat d src"
proof -
  have "map_of (filter (\<lambda>(q, n). \<not> prefix src q \<and> \<not> prefix dst q) d) dst = None"
    by (simp add: map_of_filter_key)
  then show ?thesis
    using assms by (simp add: stat_def move_def map_add_def map_of_moved)
qed

lemma os_rename_stat_dst:
  assumes "os_rename d src dst = Inr d1"
  shows "stat d1 dst = stat d src"
proof (cases "src = dst")
  case True
  with assms show ?thesis
    by (auto simp: os_rename_def split: option.splits)
next
  case False
  from assms obtain nd where nd: "stat d src = Some nd"
    by (auto simp: os_rename_def split: option.splits)
  from assms False nd have s: "src \<noteq> []"
    by (auto simp: os_rename_def stat_def split: if_splits node.splits)
  from assms False nd have m: "d1 = move d src dst"
    by (auto simp: os_rename_def split: if_splits node.splits option.splits)
  show ?thesis
  proof (cases "dst = []")
    case True
    with assms False nd have "nd = Dir"
      by (auto simp: os_rename_def is_dir_def stat_def split: if_splits node.splits)
    with True nd show ?thesis by (simp add: stat_def)
  next
    case False
    with s m show ?thesis by (simp add: stat_move_dst)
  qed
qed

lemma os_rmdir_stat:
  assumes "os_rmdir d p = Inr d2"
  shows "stat d p = Some Dir" and "stat d2 q = (if q = p then None else stat d q)"
proof -
  from assms show "stat d p = Some Dir"
    by (auto simp: os_rmdir_def split: option.splits node.splits if_splits)
  from assms have "p \<noteq> []" and "d2 = filter (\<lambda>(q, n). q \<noteq> p) d"
    by (auto simp: os_rmdir_def split: option.splits node.splits if_splits)
  then show "stat d2 q = (if q = p then None else stat d q)"
    by (auto simp: stat_def map_of_filter_key)
qed

text \<open>After the rename and the attempt to remove the directory, the target is what the source was.\<close>

lemma relocate_target:
  assumes "os_rename d src dst = Inr d1"
    and "stat (case os_rmdir d1 p of Inl e \<Rightarrow> d1 | Inr d2 \<Rightarrow> d2) dst \<noteq> None"
  shows "stat (case os_rmdir d1 p of Inl e \<Rightarrow> d1 | Inr d2 \<Rightarrow> d2) dst = stat d src"
proof (cases "os_rmdir d1 p")
  case (Inl e)
  with assms show ?thesis by (simp add: os_rename_stat_dst)
next
  case (Inr d2)
  with assms have "dst \<noteq> p"
    using os_rmdir_stat(2) [OF Inr, of dst] by auto
  with Inr assms show ?thesis
    using os_rmdir_stat(2) [OF Inr, of dst] by (simp add: os_rename_stat_dst)
qed


subsection \<open>The file fetcher: relocation\<close>

lemma nested_path:
  assumes "sub \<noteq> []" and "nm \<noteq> []"
  shows "name (output_dir @ sub @ [nm]) = nm"
    and "joinpath output_dir nm = output_dir @ [nm]"
    and "output_dir @ sub @ [nm] \<noteq> output_dir @ [nm]"
    and "parent (output_dir @ sub @ [nm]) = output_dir @ sub"
    and "parent (output_dir @ [nm]) = output_dir"
  using assms by (simp_all add: name_def joinpath_def parent_def butlast_append)

text \<open>
  What \<^verbatim>\<open>download_ply_file\<close> does when the download returns a path in a subdirectory
  of the output directory: it returns \<^verbatim>\<open>True\<close> exactly when the rename succeeds and
  the target is there afterwards; the removal of the directory is tried, and its failure
  changes nothing.
\<close>

lemma download_ply_file_nested:
  assumes "hf_hub_download h repo_id filename output_dir (disk w) (net w) =
             (Inr (output_dir @ sub @ [nm]), d', n')"
    and "sub \<noteq> []" and "nm \<noteq> []"
    and "os_rename d' (output_dir @ sub @ [nm]) (output_dir @ [nm]) = Inr d1"
    and "stat (case os_rmdir d1 (output_dir @ sub) of Inl e \<Rightarrow> d1 | Inr d2 \<Rightarrow> d2)
           (output_dir @ [nm]) = Some nd"
  shows "fst (download_ply_file h repo_id filename output_dir w) = True"
    and "disk (snd (download_ply_file h repo_id filename output_dir w)) =
           (case os_rmdir d1 (output_dir @ sub) of Inl e \<Rightarrow> d1 | Inr d2 \<Rightarrow> d2)"
    and "calls (snd (download_ply_file h repo_id filename output_dir w)) =
           calls w @ [HfHubDownload repo_id filename output_dir,
                      Rename (output_dir @ sub @ [nm]) (output_dir @ [nm]),
                      Rmdir (output_dir @ sub)]"
  using assms
  by (auto simp: download_ply_file_def download_body_def relocate_def Let_def
        nested_path split: sum.splits)

lemma download_ply_file_nested_fails:
  assumes "hf_hub_download h repo_id filename output_dir (disk w) (net w) =
             (Inr (output_dir @ sub @ [nm]), d', n')"
    and "sub \<noteq> []" and "nm \<noteq> []"
    and "os_rename d' (output_dir @ sub @ [nm]) (output_dir @ [nm]) = Inl e"
  shows "fst (download_ply_file h repo_id filename output_dir w) = False"
  using assms
  by (auto simp: download_ply_file_def download_body_def relocate_def Let_def nested_path)

lemma download_ply_file_nested_gone:
  assumes "hf_hub_download h repo_id filename output_dir (disk w) (net w) =
             (Inr (output_dir @ sub @ [nm]), d', n')"
    and "sub \<noteq> []" and "nm \<noteq> []"
    and "os_rename d' (output_dir @ sub @ [nm]) (output_dir @ [nm]) = Inr d1"
    and "stat (case os_rmdir d1 (output_dir @ sub) of Inl e \<Rightarrow> d1 | Inr d2 \<Rightarrow> d2)
           (output_dir @ [nm]) = None"
  shows "fst (download_ply_file h repo_id filename output_dir w) = False"
  using assms
  by (auto simp: download_ply_file_def download_body_def relocate_def Let_def
        nested_path split: sum.splits)

text \<open>
  C4. When the download returns a path in a subdirectory of the output directory and
  \<^verbatim>\<open>download_ply_file\<close> returns \<^verbatim>\<open>True\<close>, the file was renamed to the path of its name
  directly in the output directory: what was at the downloaded path is at that path, whose
  parent is the output directory. After the rename the removal of the directory the file
  was in is tried once; the disk is without that directory when the removal succeeds and
  as the rename left it when the removal fails, and the result is \<^verbatim>\<open>True\<close> in both cases.
\<close>

theorem download_ply_file_relocates:
  assumes "hf_hub_download h repo_id filename output_dir (disk w) (net w) =
             (Inr (output_dir @ sub @ [nm]), d', n')"
    and "sub \<noteq> []" and "nm \<noteq> []"
    and "fst (download_ply_file h repo_id filename output_dir w) = True"
  shows "\<exists>d1 nd. os_rename d' (output_dir @ sub @ [nm]) (output_dir @ [nm]) = Inr d1 \<and>
           stat d' (output_dir @ sub @ [nm]) = Some nd \<and>
           stat (disk (snd (download_ply_file h repo_id filename output_dir w)))
             (output_dir @ [nm]) = Some nd \<and>
           parent (output_dir @ [nm]) = output_dir \<and>
           disk (snd (download_ply_file h repo_id filename output_dir w)) =
             (case os_rmdir d1 (output_dir @ sub) of Inl e \<Rightarrow> d1 | Inr d2 \<Rightarrow> d2) \<and>
           calls (snd (download_ply_file h repo_id filename output_dir w)) =
             calls w @ [HfHubDownload repo_id filename output_dir,
                        Rename (output_dir @ sub @ [nm]) (output_dir @ [nm]),
                        Rmdir (output_dir @ sub)]"
proof (cases "os_rename d' (output_dir @ sub @ [nm]) (output_dir @ [nm])")
  case (Inl e)
  from download_ply_file_nested_fails [OF assms(1-3) Inl] assms(4) show ?thesis by simp
next
  case (Inr d1)
  let ?d = "case os_rmdir d1 (output_dir @ sub) of Inl e \<Rightarrow> d1 | Inr d2 \<Rightarrow> d2"
  show ?thesis
  proof (cases "stat ?d (output_dir @ [nm])")
    case None
    from download_ply_file_nested_gone [OF assms(1-3) Inr None] assms(4) show ?thesis by simp
  next
    case (Some nd)
    note r = download_ply_file_nested [OF assms(1-3) Inr Some]
    have "stat ?d (output_dir @ [nm]) = stat d' (output_dir @ sub @ [nm])"
      using relocate_target [OF Inr, of "output_dir @ sub"] Some by simp
    with Some have "stat d' (output_dir @ sub @ [nm]) = Some nd" by simp
    with Inr Some r show ?thesis
      by (simp add: nested_path(5) [OF assms(2,3)])
  qed
qed


lemma components_pcd: "components ''pcd/a.ply'' = [''pcd'', ''a.ply'']"
  by (simp add: components_def)

lemma sample_download_pcd:
  "hf_hub_download (sample_hub listing []) REPO_ID ''pcd/a.ply'' [''out'']
      (disk (start pcd_disk)) (net (start pcd_disk)) =
     (Inr ([''out''] @ [''pcd''] @ [''a.ply'']),
      ([''out'', ''pcd'', ''a.ply''], File ''pcd/a.ply'') # pcd_disk, ())"
  by (simp add: sample_hub_def sample_download_def components_pcd start_def pcd_disk_def
        Let_def mkdir_parents.simps os_mkdir_def write_text_def exists_def is_dir_def stat_def parent_def)

lemma rename_pcd:
  "os_rename (([''out'', ''pcd'', ''a.ply''], File ''pcd/a.ply'') # pcd_disk)
      ([''out''] @ [''pcd''] @ [''a.ply'']) ([''out''] @ [''a.ply'']) =
     Inr (pcd_disk @ [([''out'', ''a.ply''], File ''pcd/a.ply'')])"
  by (simp add: os_rename_def move_def pcd_disk_def exists_def is_dir_def stat_def parent_def)

lemma rmdir_pcd:
  "os_rmdir (pcd_disk @ [([''out'', ''a.ply''], File ''pcd/a.ply'')]) ([''out''] @ [''pcd'']) =
     Inl (OSError ''ENOTEMPTY'')"
  by (simp add: os_rmdir_def children_def pcd_disk_def stat_def parent_def)

theorem download_ply_file_relocates_witness:
  "hf_hub_download (sample_hub (Inr [''pcd/a.ply'']) []) REPO_ID ''pcd/a.ply'' [''out'']
      (disk (start pcd_disk)) (net (start pcd_disk)) =
     (Inr ([''out''] @ [''pcd''] @ [''a.ply'']),
      ([''out'', ''pcd'', ''a.ply''], File ''pcd/a.ply'') # pcd_disk, ()) \<and>
   fst (download_ply_file (sample_hub (Inr [''pcd/a.ply'']) []) REPO_ID ''pcd/a.ply''
          [''out''] (start pcd_disk)) = True \<and>
   os_rmdir (pcd_disk @ [([''out'', ''a.ply''], File ''pcd/a.ply'')]) [''out'', ''pcd''] =
     Inl (OSError ''ENOTEMPTY'') \<and>
   stat (disk (snd (download_ply_file (sample_hub (Inr [''pcd/a.ply'']) []) REPO_ID
          ''pcd/a.ply'' [''out''] (start pcd_disk)))) [''out'', ''a.ply''] =
     Some (File ''pcd/a.ply'') \<and>
   calls (snd (download_ply_file (sample_hub (Inr [''pcd/a.ply'']) []) REPO_ID
          ''pcd/a.ply'' [''out''] (start pcd_disk))) =
     [HfHubDownload REPO_ID ''pcd/a.ply'' [''out''],
      Rename [''out'', ''pcd'', ''a.ply''] [''out'', ''a.ply''],
      Rmdir [''out'', ''pcd'']]"
proof -
  note h = sample_download_pcd [of "Inr [''pcd/a.ply'']"]
  have s: "[''pcd''] \<noteq> []" and n: "''a.ply'' \<noteq> []" by simp_all
  have g: "stat (case os_rmdir (pcd_disk @ [([''out'', ''a.ply''], File ''pcd/a.ply'')])
                   ([''out''] @ [''pcd'']) of
              Inl e \<Rightarrow> pcd_disk @ [([''out'', ''a.ply''], File ''pcd/a.ply'')]
            | Inr d2 \<Rightarrow> d2) ([''out''] @ [''a.ply'']) = Some (File ''pcd/a.ply'')"
    unfolding rmdir_pcd by (simp add: stat_def pcd_disk_def)
  have t: "fst (download_ply_file (sample_hub (Inr [''pcd/a.ply'']) []) REPO_ID ''pcd/a.ply''
          [''out''] (start pcd_disk)) = True"
    by (rule download_ply_file_nested(1) [OF h s n rename_pcd g])
  from download_ply_file_relocates [OF h s n t] rename_pcd rmdir_pcd h t
  show ?thesis
    by (auto simp: stat_def pcd_disk_def)
qed

subsection \<open>The summary writer\<close>

lemma readme_loop_listing:
  "readme_loop d output_dir xs content =
     content @ concat (map (\<lambda>(i, filename).
         readme_line i (joinpath output_dir (Path_name filename))
           (st_size (the (stat d (joinpath output_dir (Path_name filename))))))
       (filter (\<lambda>(i, filename). exists d (joinpath output_dir (Path_name filename))) xs))"
  by (induction xs arbitrary: content) (auto simp: exists_def Let_def split: option.splits)

lemma readme_loop_sizes:
  assumes "\<forall>(i, filename) \<in> set xs.
             map_option st_size (stat d2 (joinpath output_dir (Path_name filename))) =
             map_option st_size (stat d1 (joinpath output_dir (Path_name filename)))"
  shows "readme_loop d2 output_dir xs content = readme_loop d1 output_dir xs content"
  using assms
proof (induction xs arbitrary: content)
  case Nil
  show ?case by simp
next
  case (Cons x xs)
  obtain i filename where x: "x = (i, filename)" by (cases x)
  from Cons.prems x
  have h: "map_option st_size (stat d2 (joinpath output_dir (Path_name filename))) =
           map_option st_size (stat d1 (joinpath output_dir (Path_name filename)))"
    by simp
  from Cons.prems have t: "\<forall>(i, filename) \<in> set xs.
             map_option st_size (stat d2 (joinpath output_dir (Path_name filename))) =
             map_option st_size (stat d1 (joinpath output_dir (Path_name filename)))"
    by simp
  show ?case
    using h Cons.IH [OF t] by (auto simp: x Let_def split: option.splits)
qed

lemma readme_content_sizes:
  assumes "\<forall>filename \<in> set downloaded_files.
             map_option st_size (stat d2 (joinpath output_dir (Path_name filename))) =
             map_option st_size (stat d1 (joinpath output_dir (Path_name filename)))"
  shows "readme_content d2 output_dir downloaded_files =
         readme_content d1 output_dir downloaded_files"
proof -
  have "\<forall>(i, filename) \<in> set (enumerate 1 downloaded_files).
             map_option st_size (stat d2 (joinpath output_dir (Path_name filename))) =
             map_option st_size (stat d1 (joinpath output_dir (Path_name filename)))"
    using assms by (auto simp: in_set_enumerate_eq)
  then show ?thesis
    by (simp add: readme_content_def readme_loop_sizes)
qed

lemma readme_path: "joinpath output_dir ''README.md'' = output_dir @ [''README.md'']"
  by (simp add: joinpath_def)

lemma write_text_stat:
  assumes "write_text d p content = Inr d'"
  shows "stat d' q = (if q = p then Some (File content) else stat d q)"
    and "p \<noteq> []" and "is_dir d (parent p)"
proof -
  from assms have p: "\<not> is_dir d p" and q: "is_dir d (parent p)"
    and d': "d' = (p, File content) # filter (\<lambda>(q, n). q \<noteq> p) d"
    by (auto simp: write_text_def split: if_splits)
  from p show "p \<noteq> []" by (auto simp: is_dir_def stat_def)
  with d' show "stat d' q = (if q = p then Some (File content) else stat d q)"
    by (auto simp: stat_def map_of_filter_key)
  from q show "is_dir d (parent p)" .
qed

lemma write_text_again:
  assumes "write_text d p content = Inr d'"
  shows "\<exists>d''. write_text d' p content' = Inr d''"
proof -
  note s = write_text_stat [OF assms]
  have "length (parent p) < length p" using s(2) by (simp add: parent_def)
  then have "parent p \<noteq> p" by auto
  then have "is_dir d' (parent p)" using s(1) [of "parent p"] s(3) by (simp add: is_dir_def)
  moreover have "\<not> is_dir d' p" using s(1) [of p] by (simp add: is_dir_def)
  ultimately show ?thesis by (simp add: write_text_def exists_def is_dir_def)
qed

lemma create_readme_writes:
  assumes "fst (create_readme output_dir downloaded_files w) = Inr u"
  shows "write_text (disk w) (output_dir @ [''README.md''])
           (readme_content (disk w) output_dir downloaded_files) =
         Inr (disk (snd (create_readme output_dir downloaded_files w)))"
  using assms by (auto simp: create_readme_def Let_def readme_path split: sum.splits)

lemma create_readme_succeeds:
  assumes "write_text (disk w) (output_dir @ [''README.md''])
             (readme_content (disk w) output_dir downloaded_files) = Inr d'"
  shows "fst (create_readme output_dir downloaded_files w) = Inr ()"
  using assms by (auto simp: create_readme_def Let_def readme_path split: sum.splits)


text \<open>A printed number reads back as the number.\<close>

lemma decimal_value_str_nat: "decimal_value (str_nat n) = n"
proof (induction n rule: str_nat.induct)
  case (1 n)
  show ?case
  proof (cases "n < 10")
    case True
    then show ?thesis
      by (simp add: str_nat.simps [of n] decimal_value_def digit_def)
  next
    case False
    with "1" have "decimal_value (str_nat (n div 10)) = n div 10" by simp
    moreover have "of_char (digit (n mod 10)) - 48 = n mod 10"
      by (simp add: digit_def)
    ultimately show ?thesis
      using False by (simp add: str_nat.simps [of n] decimal_value_def)
  qed
qed

lemma name_joinpath: "nm \<noteq> [] \<Longrightarrow> name (joinpath output_dir nm) = nm"
  by (simp add: name_def joinpath_def)


lemma readme_head_text:
  "readme_head n =
     concat (map (\<lambda>l. l @ [CHR 0x0A])
       [''# SpatialLM3D Sample Scenes'',
        [],
        ''This directory contains '' @ str_nat n
          @ '' sample PLY files from the SpatialLM-Testset dataset.'',
        [],
        ''## Dataset Source'',
        [],
        ''- Repository: HuggingFace `manycore-research/SpatialLM-Testset`'',
        ''- License: CC-BY-NC-4.0 (Non-commercial use, academic/educational projects allowed)'',
        ''- URL: https://huggingface.co/datasets/manycore-research/SpatialLM-Testset'',
        [],
        ''## Files'',
        []])"
  unfolding readme_head_def unlines_def nl_def ..

lemma readme_tail_text:
  "readme_tail =
     concat (map (\<lambda>l. l @ [CHR 0x0A])
       [[],
        ''## Usage'',
        [],
        ''1. Launch SpatialLM3D Desktop application'',
        ''2. Click '' @ [CHR 0x22] @ ''Select PLY File'' @ [CHR 0x22] @ '' button'',
        ''3. Navigate to this `Samples/` directory'',
        ''4. Select any `.ply` file to analyze'',
        [],
        ''## Notes'',
        [],
        ''- These files are for demonstration and testing purposes'',
        ''- Ensure you have sufficient memory to load large point clouds'',
        ''- Processing time varies based on scene complexity''])"
  unfolding readme_tail_def unlines_def nl_def dquote_def ..

text \<open>
  C10. The summary is the head with the length of the whole list of downloaded names in
  its third line, then one line for each downloaded name whose file exists in the output
  directory when the summary is composed, in the order of the list, with the number the
  name has in the list, the name of the file between backquotes and its size, then the
  tail; a name whose file is missing has no line. The name of the file is the last
  component of the downloaded name, and a printed number reads back as the number. So the
  number in the head is at least the number of lines, and it is larger when a file is
  missing.
\<close>

theorem readme_lists_existing_files:
  "readme_content d output_dir downloaded_files =
     concat (map (\<lambda>l. l @ [CHR 0x0A])
       [''# SpatialLM3D Sample Scenes'',
        [],
        ''This directory contains '' @ str_nat (length downloaded_files)
          @ '' sample PLY files from the SpatialLM-Testset dataset.'',
        [],
        ''## Dataset Source'',
        [],
        ''- Repository: HuggingFace `manycore-research/SpatialLM-Testset`'',
        ''- License: CC-BY-NC-4.0 (Non-commercial use, academic/educational projects allowed)'',
        ''- URL: https://huggingface.co/datasets/manycore-research/SpatialLM-Testset'',
        [],
        ''## Files'',
        []])
     @ concat (map (\<lambda>(i, filename).
           str_nat i @ ''. `'' @ name (joinpath output_dir (Path_name filename)) @ ''` (''
             @ fmt_mb (st_size (the (stat d (joinpath output_dir (Path_name filename)))))
             @ '' MB)'' @ [CHR 0x0A])
         (filter (\<lambda>(i, filename). exists d (joinpath output_dir (Path_name filename)))
            (enumerate 1 downloaded_files)))
     @ concat (map (\<lambda>l. l @ [CHR 0x0A])
       [[],
        ''## Usage'',
        [],
        ''1. Launch SpatialLM3D Desktop application'',
        ''2. Click '' @ [CHR 0x22] @ ''Select PLY File'' @ [CHR 0x22] @ '' button'',
        ''3. Navigate to this `Samples/` directory'',
        ''4. Select any `.ply` file to analyze'',
        [],
        ''## Notes'',
        [],
        ''- These files are for demonstration and testing purposes'',
        ''- Ensure you have sufficient memory to load large point clouds'',
        ''- Processing time varies based on scene complexity'']) \<and>
   (Path_name filename \<noteq> [] \<longrightarrow>
      name (joinpath output_dir (Path_name filename)) = Path_name filename) \<and>
   decimal_value (str_nat n) = n \<and>
   length (filter (\<lambda>(i, filename). exists d (joinpath output_dir (Path_name filename)))
             (enumerate 1 downloaded_files)) \<le> length downloaded_files \<and>
   (\<exists>d' files'.
      length (filter (\<lambda>(i, filename). exists d' (joinpath output_dir (Path_name filename)))
                (enumerate 1 files')) < length files')"
proof (intro conjI)
  show "readme_content d output_dir downloaded_files =
     concat (map (\<lambda>l. l @ [CHR 0x0A])
       [''# SpatialLM3D Sample Scenes'',
        [],
        ''This directory contains '' @ str_nat (length downloaded_files)
          @ '' sample PLY files from the SpatialLM-Testset dataset.'',
        [],
        ''## Dataset Source'',
        [],
        ''- Repository: HuggingFace `manycore-research/SpatialLM-Testset`'',
        ''- License: CC-BY-NC-4.0 (Non-commercial use, academic/educational projects allowed)'',
        ''- URL: https://huggingface.co/datasets/manycore-research/SpatialLM-Testset'',
        [],
        ''## Files'',
        []])
     @ concat (map (\<lambda>(i, filename).
           str_nat i @ ''. `'' @ name (joinpath output_dir (Path_name filename)) @ ''` (''
             @ fmt_mb (st_size (the (stat d (joinpath output_dir (Path_name filename)))))
             @ '' MB)'' @ [CHR 0x0A])
         (filter (\<lambda>(i, filename). exists d (joinpath output_dir (Path_name filename)))
            (enumerate 1 downloaded_files)))
     @ concat (map (\<lambda>l. l @ [CHR 0x0A])
       [[],
        ''## Usage'',
        [],
        ''1. Launch SpatialLM3D Desktop application'',
        ''2. Click '' @ [CHR 0x22] @ ''Select PLY File'' @ [CHR 0x22] @ '' button'',
        ''3. Navigate to this `Samples/` directory'',
        ''4. Select any `.ply` file to analyze'',
        [],
        ''## Notes'',
        [],
        ''- These files are for demonstration and testing purposes'',
        ''- Ensure you have sufficient memory to load large point clouds'',
        ''- Processing time varies based on scene complexity''])"
    by (simp only: readme_content_def readme_loop_listing readme_head_text readme_tail_text
          readme_line_def nl_def append_assoc)
  show "Path_name filename \<noteq> [] \<longrightarrow>
      name (joinpath output_dir (Path_name filename)) = Path_name filename"
    by (simp add: name_joinpath)
  show "decimal_value (str_nat n) = n"
    by (rule decimal_value_str_nat)
  have "length (filter (\<lambda>(i, filename). exists d (joinpath output_dir (Path_name filename)))
             (enumerate 1 downloaded_files)) \<le> length (enumerate 1 downloaded_files)"
    by (rule length_filter_le)
  then show "length (filter (\<lambda>(i, filename). exists d (joinpath output_dir (Path_name filename)))
             (enumerate 1 downloaded_files)) \<le> length downloaded_files"
    by simp
  have "length (filter (\<lambda>(i, filename). exists [] (joinpath output_dir (Path_name filename)))
                (enumerate 1 [''a.ply''])) < length [''a.ply'']"
    by (simp add: exists_def stat_def joinpath_def Path_name_def components_def)
  then show "\<exists>d' files'.
      length (filter (\<lambda>(i, filename). exists d' (joinpath output_dir (Path_name filename)))
                (enumerate 1 files')) < length files'"
    by blast
qed

text \<open>
  Two downloaded names, the file of the second one gone from the disk: the whole
  document, with 2 in the head and the one line of \<^verbatim>\<open>a.ply\<close>, a file of three bytes.
\<close>

lemma digit_small: "digit 0 = CHR ''0''" "digit (Suc 0) = CHR ''1''" "digit 2 = CHR ''2''"
  by code_simp+

lemma str_nat_small: "str_nat (Suc 0) = ''1''" "str_nat 2 = ''2''"
  by (simp_all add: str_nat.simps digit_small)

lemma fmt_mb_3: "fmt_mb 3 = ''0.00''"
  by (simp add: fmt_mb_def Let_def str_nat.simps digit_small)

lemma head_line_2:
  "''This directory contains '' @ ''2''
     @ '' sample PLY files from the SpatialLM-Testset dataset.'' =
   ''This directory contains 2 sample PLY files from the SpatialLM-Testset dataset.''"
  by simp

theorem readme_lists_existing_files_witness:
  "readme_content [([''out''], Dir), ([''out'', ''a.ply''], File ''abc'')] [''out'']
     [''pcd/a.ply'', ''pcd/b.ply''] =
     concat (map (\<lambda>l. l @ [CHR 0x0A])
       [''# SpatialLM3D Sample Scenes'',
        [],
        ''This directory contains 2 sample PLY files from the SpatialLM-Testset dataset.'',
        [],
        ''## Dataset Source'',
        [],
        ''- Repository: HuggingFace `manycore-research/SpatialLM-Testset`'',
        ''- License: CC-BY-NC-4.0 (Non-commercial use, academic/educational projects allowed)'',
        ''- URL: https://huggingface.co/datasets/manycore-research/SpatialLM-Testset'',
        [],
        ''## Files'',
        []])
     @ (''1. `a.ply` (0.00 MB)'' @ [CHR 0x0A])
     @ concat (map (\<lambda>l. l @ [CHR 0x0A])
       [[],
        ''## Usage'',
        [],
        ''1. Launch SpatialLM3D Desktop application'',
        ''2. Click '' @ [CHR 0x22] @ ''Select PLY File'' @ [CHR 0x22] @ '' button'',
        ''3. Navigate to this `Samples/` directory'',
        ''4. Select any `.ply` file to analyze'',
        [],
        ''## Notes'',
        [],
        ''- These files are for demonstration and testing purposes'',
        ''- Ensure you have sufficient memory to load large point clouds'',
        ''- Processing time varies based on scene complexity'']) \<and>
   Path_name ''pcd/a.ply'' = ''a.ply'' \<and>
   name (joinpath [''out''] (Path_name ''pcd/a.ply'')) = ''a.ply'' \<and>
   decimal_value ''2'' = 2"
proof -
  let ?d = "[([''out''], Dir), ([''out'', ''a.ply''], File ''abc'')]"
  note t = readme_lists_existing_files
      [of ?d "[''out'']" "[''pcd/a.ply'', ''pcd/b.ply'']" "''pcd/a.ply''" 2]
  have p: "Path_name ''pcd/a.ply'' = ''a.ply''" "Path_name ''pcd/b.ply'' = ''b.ply''"
    by (simp_all add: Path_name_def components_def)
  have f: "filter (\<lambda>(i, filename). exists ?d (joinpath [''out''] (Path_name filename)))
             (enumerate 1 [''pcd/a.ply'', ''pcd/b.ply'']) = [(1, ''pcd/a.ply'')]"
    by (simp add: p exists_def stat_def joinpath_def enumerate_eq_zip upt_rec)
  have l: "concat (map (\<lambda>(i, filename).
           str_nat i @ ''. `'' @ name (joinpath [''out''] (Path_name filename)) @ ''` (''
             @ fmt_mb (st_size (the (stat ?d (joinpath [''out''] (Path_name filename)))))
             @ '' MB)'' @ [CHR 0x0A]) [(1, ''pcd/a.ply'')]) =
           ''1. `a.ply` (0.00 MB)'' @ [CHR 0x0A]"
    by (simp add: p str_nat_small stat_def joinpath_def name_def
          fmt_mb_3 [unfolded numeral_3_eq_3])
  have n: "length [''pcd/a.ply'', ''pcd/b.ply''] = 2" by simp
  have c: "readme_content ?d [''out''] [''pcd/a.ply'', ''pcd/b.ply''] =
     concat (map (\<lambda>l. l @ [CHR 0x0A])
       [''# SpatialLM3D Sample Scenes'',
        [],
        ''This directory contains 2 sample PLY files from the SpatialLM-Testset dataset.'',
        [],
        ''## Dataset Source'',
        [],
        ''- Repository: HuggingFace `manycore-research/SpatialLM-Testset`'',
        ''- License: CC-BY-NC-4.0 (Non-commercial use, academic/educational projects allowed)'',
        ''- URL: https://huggingface.co/datasets/manycore-research/SpatialLM-Testset'',
        [],
        ''## Files'',
        []])
     @ (''1. `a.ply` (0.00 MB)'' @ [CHR 0x0A])
     @ concat (map (\<lambda>l. l @ [CHR 0x0A])
       [[],
        ''## Usage'',
        [],
        ''1. Launch SpatialLM3D Desktop application'',
        ''2. Click '' @ [CHR 0x22] @ ''Select PLY File'' @ [CHR 0x22] @ '' button'',
        ''3. Navigate to this `Samples/` directory'',
        ''4. Select any `.ply` file to analyze'',
        [],
        ''## Notes'',
        [],
        ''- These files are for demonstration and testing purposes'',
        ''- Ensure you have sufficient memory to load large point clouds'',
        ''- Processing time varies based on scene complexity''])"
    using t [THEN conjunct1] unfolding f l n str_nat_small head_line_2 .
  have m: "name (joinpath [''out''] (Path_name ''pcd/a.ply'')) = ''a.ply''"
    unfolding p by (simp add: name_def joinpath_def)
  have v: "decimal_value ''2'' = 2"
    using t [THEN conjunct2, THEN conjunct2, THEN conjunct1] unfolding str_nat_small .
  show ?thesis
    by (intro conjI c p(1) m v)
qed

text \<open>
  C8. The content of the summary depends on the disk only through the sizes of the files
  it lists: on two disks that agree on them it is the same text. An invocation that
  succeeds leaves that text as the file \<^verbatim>\<open>README.md\<close> of the output directory, and a
  second invocation after it succeeds too and leaves the same text there.
\<close>

theorem create_readme_idempotent:
  assumes "\<forall>filename \<in> set downloaded_files.
             map_option st_size (stat (disk w2) (joinpath output_dir (Path_name filename))) =
             map_option st_size (stat (disk w1) (joinpath output_dir (Path_name filename)))"
  shows "readme_content (disk w2) output_dir downloaded_files =
           readme_content (disk w1) output_dir downloaded_files \<and>
         (fst (create_readme output_dir downloaded_files w1) = Inr () \<longrightarrow>
            stat (disk (snd (create_readme output_dir downloaded_files w1)))
              (joinpath output_dir ''README.md'') =
            Some (File (readme_content (disk w1) output_dir downloaded_files))) \<and>
         (fst (create_readme output_dir downloaded_files w1) = Inr () \<and>
          w2 = snd (create_readme output_dir downloaded_files w1) \<longrightarrow>
            fst (create_readme output_dir downloaded_files w2) = Inr () \<and>
            stat (disk (snd (create_readme output_dir downloaded_files w2)))
              (joinpath output_dir ''README.md'') =
            Some (File (readme_content (disk w1) output_dir downloaded_files)))"
proof -
  note c = readme_content_sizes [OF assms]
  have one: "stat (disk (snd (create_readme output_dir downloaded_files w)))
              (joinpath output_dir ''README.md'') =
            Some (File (readme_content (disk w) output_dir downloaded_files))"
    if "fst (create_readme output_dir downloaded_files w) = Inr ()" for w :: "'a world"
    using write_text_stat(1) [OF create_readme_writes [OF that]] by (simp add: readme_path)
  have two: "fst (create_readme output_dir downloaded_files w2) = Inr ()"
    if "fst (create_readme output_dir downloaded_files w1) = Inr ()"
      and "w2 = snd (create_readme output_dir downloaded_files w1)"
  proof -
    from write_text_again [OF create_readme_writes [OF that(1)]] that(2)
    obtain d'' where "write_text (disk w2) (output_dir @ [''README.md''])
             (readme_content (disk w2) output_dir downloaded_files) = Inr d''"
      by blast
    then show ?thesis by (rule create_readme_succeeds)
  qed
  show ?thesis
    using c one [of w1] one [of w2] two by auto
qed

theorem create_readme_idempotent_witness:
  "fst (create_readme [''out''] [''a.ply'']
          (start [([''out''], Dir), ([''out'', ''a.ply''], File ''abc'')])) = Inr () \<and>
   fst (create_readme [''out''] [''a.ply'']
          (snd (create_readme [''out''] [''a.ply'']
             (start [([''out''], Dir), ([''out'', ''a.ply''], File ''abc'')])))) = Inr () \<and>
   stat (disk (snd (create_readme [''out''] [''a.ply'']
          (snd (create_readme [''out''] [''a.ply'']
             (start [([''out''], Dir), ([''out'', ''a.ply''], File ''abc'')]))))))
     [''out'', ''README.md''] =
   Some (File (readme_content [([''out''], Dir), ([''out'', ''a.ply''], File ''abc'')]
                 [''out''] [''a.ply'']))"
proof -
  let ?w1 = "start [([''out''], Dir), ([''out'', ''a.ply''], File ''abc'')]"
  let ?w2 = "snd (create_readme [''out''] [''a.ply''] ?w1)"
  have f: "fst (create_readme [''out''] [''a.ply''] ?w1) = Inr ()"
    by (rule create_readme_succeeds)
       (simp add: write_text_def is_dir_def exists_def stat_def parent_def)
  have s: "\<forall>filename \<in> set [''a.ply''].
             map_option st_size (stat (disk ?w2) (joinpath [''out''] (Path_name filename))) =
             map_option st_size (stat (disk ?w1) (joinpath [''out''] (Path_name filename)))"
    using write_text_stat(1) [OF create_readme_writes [OF f], of "[''out'', ''a.ply'']"]
    by (simp add: joinpath_def Path_name_def components_def)
  show ?thesis
    using create_readme_idempotent [OF s] f by (simp add: joinpath_def)
qed

subsection \<open>The exit status\<close>








lemma components_a: "components ''a.ply'' = [''a.ply'']"
  by (simp add: components_def)

lemmas run_defs =
  script_def main_cli_def main_def fetch_def fetch_files_def summary_def create_readme_def
  download_ply_file_def download_body_def list_available_scenes_def
  sample_hub_def sample_download_def one_file_def start_def
  slice_to_def Let_def endswith_def components_a
  mkdir_parents.simps os_mkdir_def write_text_def exists_def is_dir_def stat_def
  parent_def name_def joinpath_def






text \<open>
  The exceptions that reach the top: the one of \<^verbatim>\<open>mkdir\<close>, and the one of
  \<^verbatim>\<open>write_text\<close> when there is a summary to write.
\<close>

lemma fetch_uncaught_cases:
  "fst (fetch a h available_files w) = Uncaught e \<longleftrightarrow>
     mkdir_parents (disk w) (arg_output_dir a) = Inl e \<or>
     (\<exists>downloaded w5. fetch_files a h available_files w = (Inr downloaded, w5) \<and>
        downloaded \<noteq> [] \<and>
        write_text (disk w5) (arg_output_dir a @ [''README.md''])
          (readme_content (disk w5) (arg_output_dir a) downloaded) = Inl e)"
proof (cases "mkdir_parents (disk w) (arg_output_dir a)")
  case (Inl e')
  then show ?thesis
    by (auto simp: fetch_def fetch_files_def Let_def)
next
  case (Inr d')
  then obtain downloaded w5 where f: "fetch_files a h available_files w = (Inr downloaded, w5)"
    by (auto simp: fetch_files_def Let_def case_prod_beta)
  show ?thesis
    using Inr f
    by (auto simp: fetch_def summary_def create_readme_def Let_def joinpath_def
          split: sum.splits)
qed



lemma components_abc:
  "components ''a.ply'' = [''a.ply'']" "components ''b.ply'' = [''b.ply'']"
  "components ''c.ply'' = [''c.ply'']"
  by (simp_all add: components_def)

lemma str_int_minus_1: "str_int (- 1) = ''-1''"
  by code_simp

lemma str_nat_2: "str_nat 2 = ''2''"
  by code_simp

subsection \<open>The negative count, observed\<close>

text \<open>
  C2, at the count \<open>-1\<close> and the catalog \<^verbatim>\<open>a.ply\<close>, \<^verbatim>\<open>b.ply\<close>, \<^verbatim>\<open>c.ply\<close>: the run
  attempts the downloads of \<^verbatim>\<open>a.ply\<close> and \<^verbatim>\<open>b.ply\<close>, two files, where the first
  \<open>min (-1) 3\<close> names of the catalog are none; and it prints that it downloads -1 files
  and that 2 of -1 succeeded.
\<close>

theorem main_negative_count_fetches:
  "attempts (calls (snd (main \<lparr>arg_count = - 1, arg_output_dir = [''out''], arg_list = False\<rparr>
      (sample_hub (Inr abc) []) (start [])))) = [''a.ply'', ''b.ply''] \<and>
   take (nat (min (- 1) (int (length abc)))) abc = [] \<and>
   nl # ''Downloading -1 sample files...'' \<in> set (stdout (snd (main
      \<lparr>arg_count = - 1, arg_output_dir = [''out''], arg_list = False\<rparr>
      (sample_hub (Inr abc) []) (start [])))) \<and>
   nl # ''Download complete: 2/-1 files successful'' \<in> set (stdout (snd (main
      \<lparr>arg_count = - 1, arg_output_dir = [''out''], arg_list = False\<rparr>
      (sample_hub (Inr abc) []) (start []))))"
proof -
  have "attempts (calls (snd (main
      \<lparr>arg_count = - 1, arg_output_dir = [''out''], arg_list = False\<rparr>
      (sample_hub (Inr abc) []) (start [])))) = [''a.ply'', ''b.ply'']"
    using main_attempts [OF sample_catalog_start [of "[]"] abc_not_empty
        sample_args_not_list [of "- 1"] sample_args_mkdir [of "- 1"]]
    by (simp add: abc_def slice_to_def)
  moreover have "take (nat (min (- 1) (int (length abc)))) abc = []"
    by simp
  moreover have "nl # ''Downloading -1 sample files...'' \<in> set (stdout (snd (main
      \<lparr>arg_count = - 1, arg_output_dir = [''out''], arg_list = False\<rparr>
      (sample_hub (Inr abc) []) (start [])))) \<and>
   nl # ''Download complete: 2/-1 files successful'' \<in> set (stdout (snd (main
      \<lparr>arg_count = - 1, arg_output_dir = [''out''], arg_list = False\<rparr>
      (sample_hub (Inr abc) []) (start []))))"
    by (simp add: run_defs abc_def components_abc str_int_minus_1
          str_nat_2 [unfolded numeral_2_eq_2])
  ultimately show ?thesis by blast
qed

end
